theory Spec2Isabelle
  imports Complex_Main
begin

section \<open>Data shared by the two scripts\<close>

text \<open>
  A cell is one value of a row; the scripts never look inside a cell, they only move
  cells around. A data frame is its ordered column names and its ordered rows.
\<close>

datatype cell = IntV int | StrV string | NullV

type_synonym row = "cell list"

record dataframe =
  columns :: "string list"
  rows :: "row list"

text \<open>
  Every \<^verbatim>\<open>raise\<close> of the source, and every exception a library call can throw
  into it, is a value of this type. \<open>SparkError\<close> stands for any exception of the
  engine (an analysis error, a rejected write, a failed session).
\<close>

datatype error =
    FileNotFoundError string
  | ValueError string
  | KeyError string
  | ZeroDivisionError
  | SparkError string
  | OtherError string

section \<open>transformation.py: the re-keying of \<^verbatim>\<open>transacoes_cartao\<close>\<close>

subsection \<open>Engine operations used by the script\<close>

text \<open>
  \<^verbatim>\<open>selectExpr("id_usuario")\<close> and the reference \<^verbatim>\<open>c.id_usuario\<close>: the values
  of the column of that name, an analysis error when no column or more than one column
  has the name.
\<close>

fun positions :: "string \<Rightarrow> string list \<Rightarrow> nat \<Rightarrow> nat list" where
  "positions name [] i = []"
| "positions name (c # cs) i =
     (if c = name then i # positions name cs (Suc i) else positions name cs (Suc i))"

definition select_column :: "string \<Rightarrow> dataframe \<Rightarrow> error + cell list" where
  "select_column name df =
     (case positions name (columns df) 0 of
        [] \<Rightarrow> Inl (SparkError (''cannot resolve '' @ name))
      | [p] \<Rightarrow> Inr (map (\<lambda>r. if p < length r then r ! p else NullV) (rows df))
      | _ \<Rightarrow> Inl (SparkError (''ambiguous reference '' @ name)))"

text \<open>
  \<^verbatim>\<open>withColumn("repeat", rand()).repartition("repeat")\<close> moves every row to the
  partition its random value hashes to. \<open>part i\<close> is the partition of row \<open>i\<close>; the rows
  come out partition by partition. Every reordering of the rows is the result of some
  \<open>part\<close>.
\<close>

definition repartition :: "(nat \<Rightarrow> nat) \<Rightarrow> 'a list \<Rightarrow> 'a list" where
  "repartition part xs = map snd (sort_key (\<lambda>p. part (fst p)) (enumerate 0 xs))"



subsection \<open>repeat\_clientes\<close>

definition repetition_factor :: "int \<Rightarrow> int \<Rightarrow> int" where
  "repetition_factor transacoes_count clientes_count =
     transacoes_count div clientes_count + 1"

definition repeat_clientes :: "(nat \<Rightarrow> nat) \<Rightarrow> dataframe \<Rightarrow> int \<Rightarrow> error + dataframe" where
  "repeat_clientes part clientes transacoes_count =
     (let clientes_count = int (length (rows clientes)) in
      if clientes_count < transacoes_count then
        if clientes_count = 0 then Inl ZeroDivisionError
        else
          (case select_column ''id_usuario''
                  (clientes\<lparr>rows := repartition part (rows clientes)\<rparr>) of
             Inl e \<Rightarrow> Inl e
           | Inr ids \<Rightarrow>
               Inr \<lparr>columns = [''id_usuario''],
                    rows = concat (map (\<lambda>x. replicate
                      (nat (repetition_factor transacoes_count clientes_count)) [x]) ids)\<rparr>)
      else Inr clientes)"

subsection \<open>update\_transacoes\_cartao\<close>




subsection \<open>The reconciliation pass of main\<close>


section \<open>main.py: the materialization of the configured tables\<close>

subsection \<open>Strings of Python\<close>








subsection \<open>Configuration, schema, generator\<close>








subsection \<open>Engine calls, log lines, and the world the script runs in\<close>











subsection \<open>carregar\_configuracao and tabela\_existe\<close>



subsection \<open>criar\_ou\_atualizar\_tabela\<close>












subsection \<open>main\<close>






section \<open>Reading the trace of a run\<close>







section \<open>Counting what the join keeps\<close>


section \<open>Example inputs\<close>

definition clientes_abc :: dataframe where
  "clientes_abc =
     \<lparr>columns = [''id_usuario''], rows = [[StrV ''A''], [StrV ''B''], [StrV ''C'']]\<rparr>"

definition pool_abc :: dataframe where
  "pool_abc =
     \<lparr>columns = [''id_usuario''],
      rows = [[StrV ''A''], [StrV ''A''], [StrV ''A''], [StrV ''A''],
              [StrV ''B''], [StrV ''B''], [StrV ''B''], [StrV ''B''],
              [StrV ''C''], [StrV ''C''], [StrV ''C''], [StrV ''C'']]\<rparr>"






text \<open>Draws: every row in partition 0; every draw 0; draw 0 on the diagonal, one half off it.\<close>

definition part_zero :: "nat \<Rightarrow> nat" where
  "part_zero i = 0"
















section \<open>Properties of the re-keying\<close>

subsection \<open>Lengths\<close>

lemma length_repartition: "length (repartition part xs) = length xs"
  by (simp add: repartition_def)

lemma length_select_column:
  "select_column n df = Inr ids \<Longrightarrow> length ids = length (rows df)"
  by (auto simp: select_column_def split: list.splits)

lemma length_concat_replicate:
  "length (concat (map (\<lambda>x. replicate n [x]) ids)) = n * length ids"
  by (induction ids) auto

subsection \<open>The repetition factor\<close>

lemma ceil_div_dvd:
  fixes f d :: int
  assumes "0 < d" "d dvd f"
  shows "\<lceil>real_of_int f / real_of_int d\<rceil> = f div d"
proof -
  from assms obtain k where "f = d * k" by (auto simp: dvd_def)
  with assms show ?thesis by simp
qed

lemma ceil_div_not_dvd:
  fixes f d :: int
  assumes d: "0 < d" and nd: "\<not> d dvd f"
  shows "\<lceil>real_of_int f / real_of_int d\<rceil> = f div d + 1"
proof -
  have r0: "0 < f mod d"
    using d nd by (metis dvd_eq_mod_eq_0 less_le pos_mod_sign)
  have r1: "f mod d < d"
    using d by simp
  have "real_of_int f = real_of_int (f div d) * real_of_int d + real_of_int (f mod d)"
    by (metis div_mult_mod_eq of_int_add of_int_mult)
  then have split: "real_of_int f / real_of_int d =
      real_of_int (f div d) + real_of_int (f mod d) / real_of_int d"
    using d by (simp add: field_simps)
  have lo: "0 < real_of_int (f mod d) / real_of_int d"
    using r0 d by simp
  have hi: "real_of_int (f mod d) / real_of_int d \<le> 1"
  proof -
    have "real_of_int (f mod d) \<le> real_of_int d" using r1 by linarith
    then show ?thesis using d by simp
  qed
  show ?thesis
  proof (rule ceiling_unique)
    show "real_of_int (f div d + 1) - 1 < real_of_int f / real_of_int d"
      using split lo by simp
    show "real_of_int f / real_of_int d \<le> real_of_int (f div d + 1)"
      using split hi by simp
  qed
qed

lemma repetition_factor_ceiling:
  fixes f d :: int
  assumes "0 < d"
  shows "repetition_factor f d =
    \<lceil>real_of_int f / real_of_int d\<rceil> + (if d dvd f then 1 else 0)"
  using assms by (simp add: repetition_factor_def ceil_div_dvd ceil_div_not_dvd)

lemma repeat_clientes_small:
  assumes "repeat_clientes part clientes f = Inr pool"
      and "int (length (rows clientes)) < f"
  shows "int (length (rows pool)) =
           int (length (rows clientes)) * repetition_factor f (int (length (rows clientes)))"
    and "0 < length (rows clientes)"
    and "columns pool = [''id_usuario'']"
proof -
  let ?d = "int (length (rows clientes))"
  from assms show pos: "0 < length (rows clientes)"
    by (auto simp: repeat_clientes_def Let_def split: if_splits)
  then have "0 \<le> repetition_factor f ?d"
    using assms(2) by (simp add: repetition_factor_def pos_imp_zdiv_nonneg_iff)
  moreover from assms pos obtain ids where
      ids: "select_column ''id_usuario''
              (clientes\<lparr>rows := repartition part (rows clientes)\<rparr>) = Inr ids"
      and pool: "pool = \<lparr>columns = [''id_usuario''],
          rows = concat (map (\<lambda>x. replicate (nat (repetition_factor f ?d)) [x]) ids)\<rparr>"
    by (auto simp: repeat_clientes_def Let_def split: if_splits sum.splits)
  moreover from ids have "length ids = length (rows clientes)"
    by (simp add: length_select_column length_repartition)
  ultimately show "int (length (rows pool)) = ?d * repetition_factor f ?d"
    by (simp add: length_concat_replicate)
  from pool show "columns pool = [''id_usuario'']"
    by simp
qed

lemma repeat_clientes_large:
  assumes "repeat_clientes part clientes f = Inr pool"
      and "f \<le> int (length (rows clientes))"
  shows "pool = clientes"
  using assms by (auto simp: repeat_clientes_def Let_def split: if_splits)

lemma repeat_clientes_abc: "repeat_clientes part_zero clientes_abc 10 = Inr pool_abc"
  by (simp add: repeat_clientes_def clientes_abc_def pool_abc_def select_column_def
      repartition_def repetition_factor_def enumerate_eq_zip eval_nat_numeral part_zero_def)

text \<open>
  Claim C3, as the code has it. With \<open>d\<close> rows in \<^verbatim>\<open>clientes\<close> and \<open>f\<close> transactions:
  when \<open>d < f\<close> the factor is \<open>f div d + 1\<close>, which is \<open>ceil (f / d)\<close> when \<open>d\<close> does not
  divide \<open>f\<close> and \<open>ceil (f / d) + 1\<close> when it does, and the pool has \<open>d\<close> times the factor
  rows; when \<open>f \<le> d\<close> nothing is replicated and the pool is \<^verbatim>\<open>clientes\<close> itself. For
  \<open>d = 3\<close> and \<open>f = 10\<close> the factor is 4.
\<close>

theorem repeat_clientes_factor:
  assumes "repeat_clientes part clientes f = Inr pool"
      and "d = int (length (rows clientes))"
  shows "(d < f \<longrightarrow>
            0 < d \<and>
            repetition_factor f d =
              \<lceil>real_of_int f / real_of_int d\<rceil> + (if d dvd f then 1 else 0) \<and>
            int (length (rows pool)) = d * repetition_factor f d) \<and>
         (f \<le> d \<longrightarrow> pool = clientes) \<and>
         repetition_factor 10 3 = 4"
proof (intro conjI impI)
  assume lt: "d < f"
  with assms show pos: "0 < d"
    using repeat_clientes_small(2) [of part clientes f pool] by simp
  then show "repetition_factor f d =
      \<lceil>real_of_int f / real_of_int d\<rceil> + (if d dvd f then 1 else 0)"
    by (rule repetition_factor_ceiling)
  from lt assms show "int (length (rows pool)) = d * repetition_factor f d"
    using repeat_clientes_small(1) [of part clientes f pool] by simp
next
  assume "f \<le> d"
  with assms show "pool = clientes"
    using repeat_clientes_large [of part clientes f pool] by simp
next
  show "repetition_factor 10 3 = 4"
    by (simp add: repetition_factor_def)
qed

theorem repeat_clientes_factor_witness:
  "repeat_clientes part_zero clientes_abc 10 = Inr pool_abc \<and>
   (3::int) = int (length (rows clientes_abc)) \<and>
   repetition_factor 10 3 = \<lceil>real_of_int 10 / real_of_int 3\<rceil> + 0 \<and>
   int (length (rows pool_abc)) = 3 * repetition_factor 10 3"
proof -
  have d: "(3::int) = int (length (rows clientes_abc))"
    by (simp add: clientes_abc_def)
  show ?thesis
    using repeat_clientes_factor [OF repeat_clientes_abc d] repeat_clientes_abc d
    by simp
qed

text \<open>
  Claim C3 as stated fails where \<open>d\<close> divides \<open>f\<close>: five keys and ten transactions give
  the factor 3, and \<open>ceil (10 / 5)\<close> is 2.
\<close>

theorem repetition_factor_counterexample:
  "repetition_factor 10 5 = 3 \<and> \<lceil>real_of_int 10 / real_of_int 5\<rceil> = (2::int)"
  by (simp add: repetition_factor_def)

subsection \<open>The rows of the join\<close>











subsection \<open>The pass on the example inputs\<close>






subsection \<open>Row count\<close>




subsection \<open>Columns\<close>




subsection \<open>Empty tables\<close>







section \<open>Properties of the materialization\<close>

subsection \<open>The events of every stage\<close>























subsection \<open>The runs on the example worlds\<close>









subsection \<open>Mode, layout, format and rows of the write\<close>












subsection \<open>The loop of main\<close>













subsection \<open>The runs of main on the example worlds\<close>














subsection \<open>Exit code and skipped names\<close>






end
